theory Spec2Isabelle
  imports Complex_Main "HOL-Library.AList" "HOL-Library.Multiset"
begin

section \<open>Conventions\<close>

text \<open>
  The development embeds the simulation core of the cluster rebalancer
  (\<^verbatim>\<open>main.py\<close>), the scaling decision engine (\<^verbatim>\<open>scaling_metrics.py\<close> and
  \<^verbatim>\<open>auto_scale_node_pool\<close> of \<^verbatim>\<open>aks_integration.py\<close>) and the eviction helper of
  \<^verbatim>\<open>utils.py\<close>.

  Python floats are modelled as exact real numbers: rounding is not part of the model.
  Every concrete input used below is chosen so that the comparisons it exercises are far
  from a rounding boundary.  Readings of the clock (\<^verbatim>\<open>time.time()\<close>) are parameters.
  Log output is not modelled.  A raised exception is a value of type \<open>error\<close>.
\<close>

datatype error = ValueError | TypeError | AttributeError | KeyError

section \<open>Configuration (\<^verbatim>\<open>config.py\<close>)\<close>

text \<open>
  The fields read by the scaling engine.  Their values come from the environment, so the
  configuration is a parameter; \<open>default_config\<close> holds the defaults of \<^verbatim>\<open>config.py\<close>.
\<close>

record config =
  MIN_REPLICAS :: int
  MAX_REPLICAS :: int
  CPU_SCALING_THRESHOLD :: int
  MEMORY_SCALING_THRESHOLD :: int
  RESPONSE_TIME_THRESHOLD :: real
  MAX_RESPONSE_TIME :: real
  STABILIZATION_WINDOW :: int
  MIN_CHANGE_PERIOD :: int

definition default_config :: config where
  "default_config =
     \<lparr> MIN_REPLICAS = 1, MAX_REPLICAS = 10,
       CPU_SCALING_THRESHOLD = 70, MEMORY_SCALING_THRESHOLD = 80,
       RESPONSE_TIME_THRESHOLD = 1, MAX_RESPONSE_TIME = 2,
       STABILIZATION_WINDOW = 60, MIN_CHANGE_PERIOD = 120 \<rparr>"

section \<open>The scaling decision engine (\<^verbatim>\<open>scaling_metrics.py\<close>)\<close>

record metric =
  timestamp :: real
  cpu :: real
  memory :: real
  response_time :: real

text \<open>
  The state of a \<^verbatim>\<open>ScalingMetrics\<close> object.  The four Prometheus gauges are the
  fields \<open>g_\<dots>\<close>; \<^verbatim>\<open>Gauge.set\<close> stores a float.
\<close>

record ScalingMetrics =
  cfg :: config
  last_scale_time :: real
  metric_history :: "metric list"
  g_cpu_usage :: real
  g_memory_usage :: real
  g_pod_count :: real
  g_response_time :: real

text \<open>
  \<^verbatim>\<open>_calculate_simulated_response_time\<close>.  For a negative pod count Python's
  \<^verbatim>\<open>pods ** 0.7\<close> is a complex number and \<^verbatim>\<open>max(1, \<dots>)\<close> raises \<^verbatim>\<open>TypeError\<close>.
\<close>

definition calculate_simulated_response_time :: "real \<Rightarrow> real \<Rightarrow> int \<Rightarrow> error + real" where
  "calculate_simulated_response_time c m n =
     (if n < 0 then Inl TypeError
      else
        let base_time = 0.2;
            cpu_factor = (c / 100)\<^sup>2;
            mem_factor = m / 100;
            scaling_factor = 1 / max 1 (real_of_int n powr 0.7)
        in Inr (base_time + cpu_factor * mem_factor * scaling_factor * 3))"

text \<open>
  \<^verbatim>\<open>update_metrics\<close>; \<open>now\<close> is the clock reading, \<open>rt\<close> the optional argument
  \<^verbatim>\<open>response_time\<close> (\<open>None\<close> when it is omitted).  The response time is computed before
  the history is touched, so an exception leaves the object unchanged.
\<close>

definition update_metrics ::
  "ScalingMetrics \<Rightarrow> real \<Rightarrow> real \<Rightarrow> real \<Rightarrow> int \<Rightarrow> real option \<Rightarrow> error + ScalingMetrics" where
  "update_metrics s now cpu_usage memory_usage current_pods rt =
     (case (case rt of
              None \<Rightarrow> calculate_simulated_response_time cpu_usage memory_usage current_pods
            | Some r \<Rightarrow> Inr r) of
        Inl e \<Rightarrow> Inl e
      | Inr r \<Rightarrow>
          let appended = metric_history s @
                [\<lparr> timestamp = now, cpu = cpu_usage, memory = memory_usage, response_time = r \<rparr>];
              kept = filter (\<lambda>m. timestamp m > now - real_of_int (STABILIZATION_WINDOW (cfg s)))
                       appended
          in Inr (s\<lparr> metric_history := kept,
                    g_cpu_usage := cpu_usage,
                    g_memory_usage := memory_usage,
                    g_pod_count := real_of_int current_pods,
                    g_response_time := r \<rparr>))"

text \<open>\<^verbatim>\<open>sum(m[k] for m in history) / len(history)\<close>, used on a non-empty history only.\<close>

definition avg :: "(metric \<Rightarrow> real) \<Rightarrow> metric list \<Rightarrow> real" where
  "avg f h = sum_list (map f h) / real (length h)"

text \<open>\<^verbatim>\<open>_metrics_are_stable\<close>.\<close>

definition metrics_are_stable :: "ScalingMetrics \<Rightarrow> bool" where
  "metrics_are_stable s =
     (let h = metric_history s in
      if length h < 3 then False
      else list_all (\<lambda>m. \<not> (\<bar>cpu m - avg cpu h\<bar> > 15 \<or> \<bar>memory m - avg memory h\<bar> > 15)) h)"

text \<open>
  \<^verbatim>\<open>should_scale_up\<close>: the decision and the object afterwards.  \<open>now\<close> is the single
  clock reading the method takes.
\<close>

definition should_scale_up :: "ScalingMetrics \<Rightarrow> real \<Rightarrow> bool \<times> ScalingMetrics" where
  "should_scale_up s now =
     (if now - last_scale_time s < real_of_int (MIN_CHANGE_PERIOD (cfg s)) then (False, s)
      else if metric_history s = [] then (False, s)
      else
        let avg_cpu = avg cpu (metric_history s);
            avg_memory = avg memory (metric_history s);
            avg_response = avg response_time (metric_history s)
        in
          if avg_response > MAX_RESPONSE_TIME (cfg s) then (True, s\<lparr> last_scale_time := now \<rparr>)
          else if avg_response > RESPONSE_TIME_THRESHOLD (cfg s)
            then (True, s\<lparr> last_scale_time := now \<rparr>)
          else
            let cpu_ok = avg_cpu > real_of_int (CPU_SCALING_THRESHOLD (cfg s));
                mem_ok = avg_memory > real_of_int (MEMORY_SCALING_THRESHOLD (cfg s))
            in if cpu_ok \<or> mem_ok then (True, s\<lparr> last_scale_time := now \<rparr>)
               else (False, s))"

section \<open>The caller of the engine (\<^verbatim>\<open>AKSManager.auto_scale_node_pool\<close>)\<close>




section \<open>Resource quantities (\<^verbatim>\<open>main.py\<close>)\<close>

text \<open>
  Kubernetes quantities are strings (\<^verbatim>\<open>'4'\<close>, \<^verbatim>\<open>'250m'\<close>, \<^verbatim>\<open>'16Gi'\<close>) and the code
  turns them into numbers with \<^verbatim>\<open>float\<close> after deleting a suffix.  \<open>py_float\<close> is
  \<^verbatim>\<open>float\<close> on plain decimal notation: an optional sign, digits, an optional point and
  digits, with a digit on at least one side of the point.  \<open>None\<close> is \<^verbatim>\<open>ValueError\<close>.
  Exponents, surrounding white space, digit separators and the words \<^verbatim>\<open>inf\<close> and
  \<^verbatim>\<open>nan\<close>, which \<^verbatim>\<open>float\<close> also accepts, are outside the model.
\<close>

definition digit_of :: "char \<Rightarrow> nat option" where
  "digit_of c =
     map_of [(CHR ''0'', 0), (CHR ''1'', 1), (CHR ''2'', 2), (CHR ''3'', 3), (CHR ''4'', 4),
             (CHR ''5'', 5), (CHR ''6'', 6), (CHR ''7'', 7), (CHR ''8'', 8), (CHR ''9'', 9)] c"

fun digits_value :: "string \<Rightarrow> nat \<Rightarrow> nat option" where
  "digits_value [] acc = Some acc"
| "digits_value (c # cs) acc =
     (case digit_of c of None \<Rightarrow> None | Some d \<Rightarrow> digits_value cs (10 * acc + d))"

definition unsigned_float :: "string \<Rightarrow> real option" where
  "unsigned_float s =
     (let ip = takeWhile (\<lambda>c. c \<noteq> CHR ''.'') s;
          fp = drop 1 (dropWhile (\<lambda>c. c \<noteq> CHR ''.'') s)
      in if ip = [] \<and> fp = [] then None
         else case digits_value ip 0 of
                None \<Rightarrow> None
              | Some i \<Rightarrow>
                  (case digits_value fp 0 of
                     None \<Rightarrow> None
                   | Some f \<Rightarrow> Some (real i + real f / 10 ^ length fp)))"

definition py_float :: "string \<Rightarrow> real option" where
  "py_float s =
     (case s of
        [] \<Rightarrow> None
      | c # cs \<Rightarrow>
          if c = CHR ''-'' then map_option uminus (unsigned_float cs)
          else if c = CHR ''+'' then unsigned_float cs
          else unsigned_float s)"

text \<open>\<^verbatim>\<open>s.replace('m', '')\<close> and \<^verbatim>\<open>s.replace('Gi', '')\<close>.\<close>

definition remove_m :: "string \<Rightarrow> string" where
  "remove_m s = filter (\<lambda>c. c \<noteq> CHR ''m'') s"

fun remove_Gi :: "string \<Rightarrow> string" where
  "remove_Gi (a # b # cs) =
     (if a = CHR ''G'' \<and> b = CHR ''i'' then remove_Gi cs else a # remove_Gi (b # cs))"
| "remove_Gi cs = cs"

text \<open>
  The three lines shared by \<^verbatim>\<open>_update_simulated_node_usage\<close> and
  \<^verbatim>\<open>_calculate_pod_priority\<close>:
  \<^verbatim>\<open>cpu_req = float(cpu.replace('m', ''))\<close>, then
  \<^verbatim>\<open>if 'm' in cpu: cpu_req /= 1000.0\<close>; and the line for memory,
  \<^verbatim>\<open>float(memory.replace('Gi', ''))\<close>.
\<close>

definition cpu_cores :: "string \<Rightarrow> real option" where
  "cpu_cores s =
     (case py_float (remove_m s) of
        None \<Rightarrow> None
      | Some cpu_req \<Rightarrow> Some (if CHR ''m'' \<in> set s then cpu_req / 1000 else cpu_req))"

definition mem_gb :: "string \<Rightarrow> real option" where
  "mem_gb s = py_float (remove_Gi s)"

section \<open>Cluster state (\<^verbatim>\<open>main.py\<close>)\<close>

text \<open>
  A pod and a node are the dictionaries of the simulation, with the keys the code reads.
  \<open>labels\<close> is a dictionary, read with \<open>map_of\<close>.  \<open>simulated_nodes\<close> is a dictionary
  whose iteration order matters, hence an association list in insertion order.
\<close>

record pod =
  name :: string
  namespace :: string
  requests_cpu :: string
  requests_memory :: string
  labels :: "(string \<times> string) list"
  creation_timestamp :: real

record node =
  is_spot :: bool
  allocatable_cpu :: string
  allocatable_memory :: string
  current_cpu_usage :: real
  current_mem_usage_gb :: real
  pods :: "pod list"

text \<open>An entry of the dictionary returned by \<^verbatim>\<open>get_node_metrics\<close>.\<close>

record node_metrics =
  m_is_spot :: bool
  m_pods :: nat
  m_allocatable_cpu :: string
  m_allocatable_memory :: string
  m_current_cpu_usage :: real
  m_current_mem_usage_gb :: real

type_synonym nodes = "(string \<times> node) list"

record ClusterRebalancer =
  REBALANCE_INTERVAL_SECONDS :: real
  last_rebalance_time :: real
  max_pods_per_cycle :: nat
  simulation_mode :: bool
  simulated_nodes :: nodes

section \<open>Scoring and eviction helpers (\<^verbatim>\<open>main.py\<close>)\<close>

text \<open>\<^verbatim>\<open>calculate_node_score\<close> of \<^verbatim>\<open>main.py\<close>.\<close>

definition calculate_node_score :: "node_metrics \<Rightarrow> error + real" where
  "calculate_node_score node_info =
     (case py_float (m_allocatable_cpu node_info) of
        None \<Rightarrow> Inl ValueError
      | Some cpu_capacity \<Rightarrow>
          (case py_float (remove_Gi (m_allocatable_memory node_info)) of
             None \<Rightarrow> Inl ValueError
           | Some mem_capacity_gb \<Rightarrow> Inr (cpu_capacity * 0.7 + mem_capacity_gb * 0.3)))"

text \<open>\<^verbatim>\<open>safe_evict_pod\<close> of \<^verbatim>\<open>main.py\<close>.\<close>

definition safe_evict_pod :: "string \<Rightarrow> string \<Rightarrow> (string \<times> string) list \<Rightarrow> bool" where
  "safe_evict_pod pod_name pod_namespace pod_labels =
     (if map_of pod_labels ''critical'' = Some ''true'' then False else True)"

section \<open>Usage bookkeeping\<close>

text \<open>
  The loop of \<^verbatim>\<open>_update_simulated_node_usage\<close>.  The two counters are written after each
  pod, so when a request does not parse the counters hold the sum over the pods before it.
\<close>

fun accumulate_usage :: "pod list \<Rightarrow> real \<Rightarrow> real \<Rightarrow> error option \<times> real \<times> real" where
  "accumulate_usage [] c m = (None, c, m)"
| "accumulate_usage (p # ps) c m =
     (case cpu_cores (requests_cpu p) of
        None \<Rightarrow> (Some ValueError, c, m)
      | Some cpu_req \<Rightarrow>
          (case mem_gb (requests_memory p) of
             None \<Rightarrow> (Some ValueError, c, m)
           | Some mem_req \<Rightarrow> accumulate_usage ps (c + cpu_req) (m + mem_req)))"

definition update_simulated_node_usage :: "string \<Rightarrow> nodes \<Rightarrow> error option \<times> nodes" where
  "update_simulated_node_usage node_name ns =
     (case map_of ns node_name of
        None \<Rightarrow> (None, ns)
      | Some nd \<Rightarrow>
          (case accumulate_usage (pods nd) 0 0 of
             (e, c, m) \<Rightarrow>
               (e, AList.update node_name
                     (nd\<lparr> current_cpu_usage := c, current_mem_usage_gb := m \<rparr>) ns)))"

text \<open>The first loop of \<^verbatim>\<open>get_node_metrics\<close>, over the keys of the dictionary.\<close>

fun update_all_usage :: "string list \<Rightarrow> nodes \<Rightarrow> error option \<times> nodes" where
  "update_all_usage [] ns = (None, ns)"
| "update_all_usage (k # ks) ns =
     (case update_simulated_node_usage k ns of
        (Some e, ns') \<Rightarrow> (Some e, ns')
      | (None, ns') \<Rightarrow> update_all_usage ks ns')"

definition metrics_of :: "node \<Rightarrow> node_metrics" where
  "metrics_of info =
     \<lparr> m_is_spot = is_spot info,
       m_pods = length (pods info),
       m_allocatable_cpu = allocatable_cpu info,
       m_allocatable_memory = allocatable_memory info,
       m_current_cpu_usage = current_cpu_usage info,
       m_current_mem_usage_gb = current_mem_usage_gb info \<rparr>"

text \<open>
  \<^verbatim>\<open>get_node_metrics\<close>: the result or the exception, and the object afterwards.  Outside
  simulation mode the method is not implemented and returns an empty dictionary.
\<close>

definition get_node_metrics ::
  "ClusterRebalancer \<Rightarrow> (error + (string \<times> node_metrics) list) \<times> ClusterRebalancer" where
  "get_node_metrics s =
     (if simulation_mode s then
        (case update_all_usage (map fst (simulated_nodes s)) (simulated_nodes s) of
           (Some e, ns) \<Rightarrow> (Inl e, s\<lparr> simulated_nodes := ns \<rparr>)
         | (None, ns) \<Rightarrow>
             (Inr (map (\<lambda>(nm, info). (nm, metrics_of info)) ns), s\<lparr> simulated_nodes := ns \<rparr>))
      else (Inr [], s))"

section \<open>Candidate pods\<close>

definition find_pods_for_rebalance :: "ClusterRebalancer \<Rightarrow> pod list" where
  "find_pods_for_rebalance s =
     (if simulation_mode s then
        (case map_of (simulated_nodes s) ''aks-regular-1'' of
           None \<Rightarrow> []
         | Some nd \<Rightarrow> filter (\<lambda>p. map_of (labels p) ''critical'' = Some ''false'') (pods nd))
      else [])"

text \<open>\<^verbatim>\<open>_calculate_pod_priority\<close>, with the clock reading \<open>now\<close>.\<close>

definition calculate_pod_priority :: "real \<Rightarrow> pod \<Rightarrow> error + real" where
  "calculate_pod_priority now p =
     (let priority0 =
            (if (case map_of (labels p) ''critical'' of None \<Rightarrow> ''false'' | Some v \<Rightarrow> v) = ''false''
             then 5 else 0);
          priority1 = priority0 + (if now - creation_timestamp p > 3600 then 1 else 0)
      in case cpu_cores (requests_cpu p) of
           None \<Rightarrow> Inl ValueError
         | Some cpu_req \<Rightarrow>
             (case mem_gb (requests_memory p) of
                None \<Rightarrow> Inl ValueError
              | Some mem_req_gb \<Rightarrow>
                  let cpu_priority_factor = 1 - min (cpu_req / 2) 1;
                      mem_priority_factor = 1 - min (mem_req_gb / 4) 1
                  in Inr (priority1 + (cpu_priority_factor + mem_priority_factor) * 0.5)))"

text \<open>The loop of \<^verbatim>\<open>_filter_pods\<close>.\<close>

fun prioritize :: "real \<Rightarrow> pod list \<Rightarrow> error + (pod \<times> real) list" where
  "prioritize now [] = Inr []"
| "prioritize now (p # ps) =
     (if map_of (labels p) ''critical'' = Some ''true'' then prioritize now ps
      else case calculate_pod_priority now p of
             Inl e \<Rightarrow> Inl e
           | Inr score \<Rightarrow>
               (case prioritize now ps of
                  Inl e \<Rightarrow> Inl e
                | Inr rest \<Rightarrow> Inr ((p, score) # rest)))"

text \<open>
  \<^verbatim>\<open>list.sort(key=\<dots>, reverse=True)\<close> and \<^verbatim>\<open>sorted(\<dots>, reverse=True)\<close> on pairs keyed by
  the second component: descending, and stable (equal keys keep their order).
\<close>

definition sort_desc :: "('a \<times> real) list \<Rightarrow> ('a \<times> real) list" where
  "sort_desc xs = sort_key (\<lambda>x. - snd x) xs"

definition filter_pods :: "ClusterRebalancer \<Rightarrow> pod list \<Rightarrow> real \<Rightarrow> error + pod list" where
  "filter_pods s ps now =
     (if ps = [] then Inr []
      else case prioritize now ps of
             Inl e \<Rightarrow> Inl e
           | Inr prioritized_pods \<Rightarrow>
               Inr (map fst (take (max_pods_per_cycle s) (sort_desc prioritized_pods))))"

section \<open>Destination nodes\<close>

text \<open>The loop of \<^verbatim>\<open>_select_target_nodes\<close>.\<close>

fun score_nodes :: "(string \<times> node_metrics) list \<Rightarrow> error + (string \<times> real) list" where
  "score_nodes [] = Inr []"
| "score_nodes ((nm, info) # rest) =
     (if m_is_spot info then
        (case py_float (m_allocatable_cpu info) of
           None \<Rightarrow> Inl ValueError
         | Some cpu_capacity \<Rightarrow>
             (case py_float (remove_Gi (m_allocatable_memory info)) of
                None \<Rightarrow> Inl ValueError
              | Some mem_capacity_gb \<Rightarrow>
                  let cpu_utilization =
                        (if cpu_capacity > 0 then m_current_cpu_usage info / cpu_capacity else 1);
                      mem_utilization =
                        (if mem_capacity_gb > 0 then m_current_mem_usage_gb info / mem_capacity_gb
                         else 1);
                      utilization_factor = ((1 - cpu_utilization) + (1 - mem_utilization)) / 2
                  in (case calculate_node_score info of
                        Inl e \<Rightarrow> Inl e
                      | Inr base_capacity_score \<Rightarrow>
                          (let score = base_capacity_score * (1 + utilization_factor * 2)
                           in (case score_nodes rest of
                                 Inl e \<Rightarrow> Inl e
                               | Inr scored \<Rightarrow> Inr ((nm, score) # scored))))))
      else score_nodes rest)"

definition select_target_nodes ::
  "(string \<times> node_metrics) list \<Rightarrow> error + (string \<times> real) list" where
  "select_target_nodes node_metrics =
     (case score_nodes node_metrics of
        Inl e \<Rightarrow> Inl e
      | Inr scored_nodes \<Rightarrow> Inr (sort_desc scored_nodes))"

section \<open>Migration\<close>

text \<open>
  The inner loop of \<^verbatim>\<open>_execute_migrations\<close> that looks for the pod: the first node
  holding a pod of that name loses every pod of that name and has its usage recomputed.
  The first argument is the part of the dictionary still to visit, the last the whole
  dictionary.  The result is the exception if any, \<^verbatim>\<open>found_pod\<close>, and the dictionary.
\<close>

fun find_and_remove :: "string \<Rightarrow> nodes \<Rightarrow> nodes \<Rightarrow> error option \<times> bool \<times> nodes" where
  "find_and_remove pod_name [] ns = (None, False, ns)"
| "find_and_remove pod_name ((n_name, n_info) # rest) ns =
     (let new_pod_list = filter (\<lambda>p. name p \<noteq> pod_name) (pods n_info) in
      if length new_pod_list < length (pods n_info) then
        (case update_simulated_node_usage n_name
                (AList.update n_name (n_info\<lparr> pods := new_pod_list \<rparr>) ns) of
           (e, ns') \<Rightarrow> (e, True, ns'))
      else find_and_remove pod_name rest ns)"

text \<open>\<^verbatim>\<open>setdefault('pods', []).append(pod)\<close> on the target, then the usage update.\<close>

definition place_pod :: "pod \<Rightarrow> string \<Rightarrow> nodes \<Rightarrow> error option \<times> nodes" where
  "place_pod p target ns =
     (case map_of ns target of
        None \<Rightarrow> (None, ns)
      | Some t \<Rightarrow>
          update_simulated_node_usage target
            (AList.update target (t\<lparr> pods := pods t @ [p] \<rparr>) ns))"

text \<open>
  The loop over the pods of \<^verbatim>\<open>_execute_migrations\<close> in simulation mode;
  \<open>node_cycle_idx\<close> is the round-robin counter.  The list of targets is not empty here,
  so the index is in range and the \<^verbatim>\<open>IndexError\<close> handler is never entered.  There is
  no comparison of the pod's request with the target's capacity anywhere in the loop.
\<close>

fun migrate ::
  "real \<Rightarrow> (string \<times> real) list \<Rightarrow> pod list \<Rightarrow> nat \<Rightarrow> nodes \<Rightarrow> error option \<times> nodes" where
  "migrate now target_nodes [] node_cycle_idx ns = (None, ns)"
| "migrate now target_nodes (p # ps) node_cycle_idx ns =
     (let target_node_name = fst (target_nodes ! (node_cycle_idx mod length target_nodes)) in
      case calculate_pod_priority now p of
        Inl e \<Rightarrow> (Some e, ns)
      | Inr pod_priority \<Rightarrow>
          if \<not> safe_evict_pod (name p) (namespace p) (labels p)
            then migrate now target_nodes ps (node_cycle_idx + 1) ns
          else
            (case find_and_remove (name p) ns ns of
               (Some e, found_pod, ns1) \<Rightarrow> (Some e, ns1)
             | (None, False, ns1) \<Rightarrow> migrate now target_nodes ps (node_cycle_idx + 1) ns1
             | (None, True, ns1) \<Rightarrow>
                 (case place_pod p target_node_name ns1 of
                    (Some e, ns2) \<Rightarrow> (Some e, ns2)
                  | (None, ns2) \<Rightarrow> migrate now target_nodes ps (node_cycle_idx + 1) ns2)))"

definition execute_migrations ::
  "ClusterRebalancer \<Rightarrow> pod list \<Rightarrow> (string \<times> real) list \<Rightarrow> real
     \<Rightarrow> error option \<times> ClusterRebalancer" where
  "execute_migrations s ps target_nodes now =
     (if target_nodes = [] then (None, s)
      else if simulation_mode s then
        (case migrate now target_nodes ps 0 (simulated_nodes s) of
           (e, ns) \<Rightarrow> (e, s\<lparr> simulated_nodes := ns \<rparr>))
      else (None, s))"

section \<open>One rebalance cycle\<close>

text \<open>
  The log lines that print the state of the nodes format
  \<^verbatim>\<open>float(info['allocatable']['cpu'])\<close> and the memory likewise, for every node, inside
  the \<^verbatim>\<open>try\<close> block: they raise when a capacity does not parse.
\<close>

definition log_node_state :: "(string \<times> node_metrics) list \<Rightarrow> error option" where
  "log_node_state node_metrics =
     (if list_all (\<lambda>(nm, info). py_float (m_allocatable_cpu info) \<noteq> None
                     \<and> py_float (remove_Gi (m_allocatable_memory info)) \<noteq> None) node_metrics
      then None else Some ValueError)"

text \<open>
  \<^verbatim>\<open>rebalance_cluster\<close>.  \<open>now\<close> is the clock at the start of the cycle (the guard and
  the pod priorities), \<open>now_end\<close> the reading stored in \<^verbatim>\<open>last_rebalance_time\<close>.  Every
  exception is caught by the \<^verbatim>\<open>except\<close> clause, which only logs: what was mutated
  before the exception stays mutated.  The closing summary changes nothing further.
\<close>

definition rebalance_cluster :: "ClusterRebalancer \<Rightarrow> real \<Rightarrow> real \<Rightarrow> ClusterRebalancer" where
  "rebalance_cluster s now now_end =
     (if now - last_rebalance_time s < REBALANCE_INTERVAL_SECONDS s then s
      else
        case get_node_metrics s of
          (Inl e, s1) \<Rightarrow> s1
        | (Inr node_metrics, s1) \<Rightarrow>
            (case log_node_state node_metrics of
               Some e \<Rightarrow> s1
             | None \<Rightarrow>
                 (let pods_to_move = find_pods_for_rebalance s1 in
                  (case filter_pods s1 pods_to_move now of
                     Inl e \<Rightarrow> s1
                   | Inr filtered_pods \<Rightarrow>
                       (case select_target_nodes node_metrics of
                          Inl e \<Rightarrow> s1
                        | Inr target_nodes \<Rightarrow>
                            (case (if filtered_pods \<noteq> [] \<and> target_nodes \<noteq> []
                                   then execute_migrations s1 filtered_pods target_nodes now
                                   else (None, s1)) of
                               (Some e, s2) \<Rightarrow> s2
                             | (None, s2) \<Rightarrow>
                                 snd (get_node_metrics
                                        (s2\<lparr> last_rebalance_time := now_end \<rparr>))))))))"

section \<open>Interruption of a spot node\<close>

text \<open>
  The capacity test of \<^verbatim>\<open>simulate_spot_node_interruption\<close>, used for the spot nodes
  and for the fallback node.  \<^verbatim>\<open>and\<close> evaluates its right operand, and so parses the
  memory capacity, only when the CPU comparison holds.
\<close>

definition has_capacity :: "node \<Rightarrow> real \<Rightarrow> real \<Rightarrow> error + bool" where
  "has_capacity node_info cpu_req mem_req =
     (case py_float (allocatable_cpu node_info) of
        None \<Rightarrow> Inl ValueError
      | Some cpu_capacity \<Rightarrow>
          if current_cpu_usage node_info + cpu_req \<le> cpu_capacity then
            (case py_float (remove_Gi (allocatable_memory node_info)) of
               None \<Rightarrow> Inl ValueError
             | Some mem_capacity \<Rightarrow> Inr (current_mem_usage_gb node_info + mem_req \<le> mem_capacity))
          else Inr False)"

text \<open>
  The pod's request as this method computes it:
  \<^verbatim>\<open>float(cpu.replace('m', '')) / 1000\<close>, a division applied whether or not the string
  carries the suffix, and the memory as elsewhere.
\<close>

definition interruption_request :: "pod \<Rightarrow> error + real \<times> real" where
  "interruption_request p =
     (case py_float (remove_m (requests_cpu p)) of
        None \<Rightarrow> Inl ValueError
      | Some c \<Rightarrow>
          (case mem_gb (requests_memory p) of
             None \<Rightarrow> Inl ValueError
           | Some mem_req \<Rightarrow> Inr (c / 1000, mem_req)))"

text \<open>The loop that collects \<^verbatim>\<open>eligible_spot_nodes_with_capacity\<close> for one pod.\<close>

fun eligible_spot_nodes :: "pod \<Rightarrow> string list \<Rightarrow> nodes \<Rightarrow> error + string list" where
  "eligible_spot_nodes p [] ns = Inr []"
| "eligible_spot_nodes p (n_name # rest) ns =
     (case map_of ns n_name of
        None \<Rightarrow> Inl KeyError
      | Some node_info \<Rightarrow>
          (case interruption_request p of
             Inl e \<Rightarrow> Inl e
           | Inr (cpu_req, mem_req) \<Rightarrow>
               (case has_capacity node_info cpu_req mem_req of
                  Inl e \<Rightarrow> Inl e
                | Inr ok \<Rightarrow>
                    (case eligible_spot_nodes p rest ns of
                       Inl e \<Rightarrow> Inl e
                     | Inr others \<Rightarrow> Inr (if ok then n_name # others else others)))))"

text \<open>
  The loop over the orphaned pods.  \<^verbatim>\<open>random.choice\<close> returns the element at a random
  index; \<open>rnd k\<close> is the random draw available to the \<open>k\<close>-th orphaned pod.
\<close>

fun reprogram ::
  "(nat \<Rightarrow> nat) \<Rightarrow> nat \<Rightarrow> string list \<Rightarrow> pod list \<Rightarrow> nodes \<Rightarrow> error option \<times> nodes" where
  "reprogram rnd k remaining_spot_nodes_names [] ns = (None, ns)"
| "reprogram rnd k remaining_spot_nodes_names (p # ps) ns =
     (case eligible_spot_nodes p remaining_spot_nodes_names ns of
        Inl e \<Rightarrow> (Some e, ns)
      | Inr eligible \<Rightarrow>
          if eligible \<noteq> [] then
            (case place_pod p (eligible ! (rnd k mod length eligible)) ns of
               (Some e, ns1) \<Rightarrow> (Some e, ns1)
             | (None, ns1) \<Rightarrow> reprogram rnd (k + 1) remaining_spot_nodes_names ps ns1)
          else
            (case map_of ns ''aks-regular-1'' of
               None \<Rightarrow> reprogram rnd (k + 1) remaining_spot_nodes_names ps ns
             | Some fallback \<Rightarrow>
                 if is_spot fallback then reprogram rnd (k + 1) remaining_spot_nodes_names ps ns
                 else
                   (case interruption_request p of
                      Inl e \<Rightarrow> (Some e, ns)
                    | Inr (cpu_req, mem_req) \<Rightarrow>
                        (case has_capacity fallback cpu_req mem_req of
                           Inl e \<Rightarrow> (Some e, ns)
                         | Inr False \<Rightarrow> reprogram rnd (k + 1) remaining_spot_nodes_names ps ns
                         | Inr True \<Rightarrow>
                             (case place_pod p ''aks-regular-1'' ns of
                                (Some e, ns1) \<Rightarrow> (Some e, ns1)
                              | (None, ns1) \<Rightarrow>
                                  reprogram rnd (k + 1) remaining_spot_nodes_names ps ns1)))))"

definition simulate_spot_node_interruption ::
  "ClusterRebalancer \<Rightarrow> string \<Rightarrow> (nat \<Rightarrow> nat) \<Rightarrow> error option \<times> ClusterRebalancer" where
  "simulate_spot_node_interruption s node_name rnd =
     (case map_of (simulated_nodes s) node_name of
        None \<Rightarrow> (None, s)
      | Some nd \<Rightarrow>
          if \<not> is_spot nd then (None, s)
          else
            let interrupted_node_pods = pods nd;
                ns1 = AList.delete node_name (simulated_nodes s);
                remaining_spot_nodes_names = map fst (filter (\<lambda>(n_name, n_info). is_spot n_info) ns1)
            in (case reprogram rnd 0 remaining_spot_nodes_names interrupted_node_pods ns1 of
                  (e, ns2) \<Rightarrow> (e, s\<lparr> simulated_nodes := ns2 \<rparr>)))"

section \<open>The eviction helper of \<^verbatim>\<open>utils.py\<close>\<close>

text \<open>
  The attributes of the class \<^verbatim>\<open>Config\<close> of \<^verbatim>\<open>config.py\<close>, which \<^verbatim>\<open>utils.py\<close> imports.
  The class has no \<^verbatim>\<open>__init__\<close> and no \<^verbatim>\<open>__getattr__\<close>, so an instance has exactly
  the attributes of the class body.  Their values depend on the environment and are a
  parameter; their names do not.
\<close>

definition Config_attributes :: "string list" where
  "Config_attributes =
     [''KUBECONFIG'', ''AKS_CLUSTER_NAME'', ''AZURE_SUBSCRIPTION_ID'', ''SPOT_NODE_POOL'',
      ''REGULAR_NODE_POOL'', ''SPOT_UTILIZATION_THRESHOLD'', ''REGULAR_UTILIZATION_THRESHOLD'',
      ''MAX_SPOT_INTERRUPTION_RISK'', ''KEDA_NAMESPACE'', ''PROMETHEUS_URL'',
      ''SCALING_COOLDOWN'', ''MIN_REPLICAS'', ''MAX_REPLICAS'', ''CPU_SCALING_THRESHOLD'',
      ''MEMORY_SCALING_THRESHOLD'', ''ENVIRONMENT'', ''RESPONSE_TIME_THRESHOLD'',
      ''MAX_RESPONSE_TIME'', ''COOLDOWN_PERIOD'', ''STABILIZATION_WINDOW'',
      ''MIN_CHANGE_PERIOD'', ''TIME_WINDOWS'', ''ROLLBACK_ENABLED'',
      ''ROLLBACK_THRESHOLD_CPU'', ''ROLLBACK_CHECK_INTERVAL'']"

datatype pyval = PNone | PBool bool | PInt int | PFloat real | PStr string | PDict

fun truthy :: "pyval \<Rightarrow> bool" where
  "truthy PNone = False"
| "truthy (PBool b) = b"
| "truthy (PInt i) = (i \<noteq> 0)"
| "truthy (PFloat x) = (x \<noteq> 0)"
| "truthy (PStr s) = (s \<noteq> [])"
| "truthy PDict = True"

text \<open>Reading an attribute of \<^verbatim>\<open>Config()\<close>.\<close>

definition Config_getattr :: "(string \<Rightarrow> pyval) \<Rightarrow> string \<Rightarrow> error + pyval" where
  "Config_getattr values a =
     (if a \<in> set Config_attributes then Inr (values a) else Inl AttributeError)"

text \<open>
  The Kubernetes API is external: its answers are given per attempt.  A read returns the
  pod's labels (\<open>None\<close> when the pod has none) or fails with an HTTP status; an eviction
  succeeds or fails with a status.  The calls made are recorded.
\<close>

datatype read_result = PodRead "(string \<times> string) list option" | ReadFailed nat

datatype evict_result = Evicted | EvictFailed nat

record core_api =
  read_namespaced_pod :: "nat \<Rightarrow> read_result"
  create_namespaced_pod_eviction :: "nat \<Rightarrow> evict_result"

datatype api_call = ReadPod nat | CreateEviction nat

text \<open>
  The retry loop of \<^verbatim>\<open>safe_evict_pod\<close>: \<open>attempt\<close> is the loop variable, the third
  argument the number of iterations left.  The back-off sleep is not modelled.
\<close>

fun evict_loop :: "core_api \<Rightarrow> nat \<Rightarrow> nat \<Rightarrow> (error + bool) \<times> api_call list" where
  "evict_loop api attempt 0 = (Inr False, [])"
| "evict_loop api attempt (Suc left) =
     (case read_namespaced_pod api attempt of
        ReadFailed status \<Rightarrow>
          if status = 429 then
            (case evict_loop api (attempt + 1) left of (r, tr) \<Rightarrow> (r, ReadPod attempt # tr))
          else (Inr False, [ReadPod attempt])
      | PodRead None \<Rightarrow> (Inl AttributeError, [ReadPod attempt])
      | PodRead (Some lbls) \<Rightarrow>
          if (case map_of lbls ''critical'' of None \<Rightarrow> ''false'' | Some v \<Rightarrow> v) = ''true''
            then (Inr False, [ReadPod attempt])
          else
            (case create_namespaced_pod_eviction api attempt of
               Evicted \<Rightarrow> (Inr True, [ReadPod attempt, CreateEviction attempt])
             | EvictFailed status \<Rightarrow>
                 if status = 429 then
                   (case evict_loop api (attempt + 1) left of
                      (r, tr) \<Rightarrow> (r, ReadPod attempt # CreateEviction attempt # tr))
                 else (Inr False, [ReadPod attempt, CreateEviction attempt])))"

text \<open>
  \<^verbatim>\<open>safe_evict_pod\<close> of \<^verbatim>\<open>utils.py\<close>: the value returned or the exception raised, and
  the API calls made.
\<close>

definition utils_safe_evict_pod ::
  "(string \<Rightarrow> pyval) \<Rightarrow> core_api \<Rightarrow> string \<Rightarrow> string \<Rightarrow> int \<Rightarrow> (error + bool) \<times> api_call list" where
  "utils_safe_evict_pod values api pod_name ns max_retries =
     (case Config_getattr values ''TEST_MODE'' of
        Inl e \<Rightarrow> (Inl e, [])
      | Inr v \<Rightarrow>
          if truthy v then (Inr True, [])
          else evict_loop api 0 (nat max_retries))"

section \<open>Call sequences on a \<^verbatim>\<open>ScalingMetrics\<close> object\<close>

text \<open>
  A client of the object calls \<^verbatim>\<open>update_metrics\<close> and \<^verbatim>\<open>should_scale_up\<close> in any
  order.  \<open>calls\<close> runs such a sequence and collects the decisions; an ingestion that
  raises leaves the object as it was.
\<close>

datatype call = Ingest real real real int "real option" | Decide real

fun calls :: "ScalingMetrics \<Rightarrow> call list \<Rightarrow> bool list \<times> ScalingMetrics" where
  "calls s [] = ([], s)"
| "calls s (Ingest now c m n rt # cs) =
     (case update_metrics s now c m n rt of Inl e \<Rightarrow> calls s cs | Inr s1 \<Rightarrow> calls s1 cs)"
| "calls s (Decide now # cs) =
     (case should_scale_up s now of (d, s1) \<Rightarrow>
        (case calls s1 cs of (ds, s2) \<Rightarrow> (d # ds, s2)))"

text \<open>A decision is requested less than \<open>period\<close> after \<open>t\<close>.\<close>

fun in_cooldown :: "real \<Rightarrow> real \<Rightarrow> call \<Rightarrow> bool" where
  "in_cooldown t period (Decide t') = (t' - t < period)"
| "in_cooldown t period (Ingest now c m n rt) = True"

section \<open>Sample objects\<close>

definition w_metrics :: ScalingMetrics where
  "w_metrics = \<lparr> cfg = default_config, last_scale_time = 0,
      metric_history = [\<lparr> timestamp = 990, cpu = 40, memory = 40, response_time = 2.5 \<rparr>],
      g_cpu_usage = 40, g_memory_usage = 40, g_pod_count = 2, g_response_time = 2.5 \<rparr>"


text \<open>Pods, clusters and a rebalancer in simulation mode, used as concrete inputs.\<close>

definition big_pod :: pod where
  "big_pod = \<lparr> name = ''batch-1'', namespace = ''default'', requests_cpu = ''3'',
      requests_memory = ''1Gi'', labels = [(''critical'', ''false'')], creation_timestamp = 0 \<rparr>"

definition small_pod :: pod where
  "small_pod = \<lparr> name = ''web-1'', namespace = ''default'', requests_cpu = ''0.5'',
      requests_memory = ''1Gi'', labels = [(''critical'', ''false'')], creation_timestamp = 0 \<rparr>"

definition resident_pod :: pod where
  "resident_pod = \<lparr> name = ''cache-1'', namespace = ''default'', requests_cpu = ''2'',
      requests_memory = ''8Gi'', labels = [(''critical'', ''false'')], creation_timestamp = 0 \<rparr>"



definition rebalancer :: "nodes \<Rightarrow> ClusterRebalancer" where
  "rebalancer ns =
     \<lparr> REBALANCE_INTERVAL_SECONDS = 30, last_rebalance_time = 0, max_pods_per_cycle = 10,
       simulation_mode = True, simulated_nodes = ns \<rparr>"

definition mk_node :: "bool \<Rightarrow> string \<Rightarrow> string \<Rightarrow> real \<Rightarrow> real \<Rightarrow> pod list \<Rightarrow> node" where
  "mk_node spot c m uc um ps =
     \<lparr> is_spot = spot, allocatable_cpu = c, allocatable_memory = m,
       current_cpu_usage = uc, current_mem_usage_gb = um, pods = ps \<rparr>"

definition small_node_state :: ClusterRebalancer where
  "small_node_state = rebalancer
     [(''aks-spot-2'', mk_node True ''2'' ''8Gi'' 0 0 []),
      (''aks-regular-1'', mk_node False ''8'' ''32Gi'' 3 1 [big_pod])]"

definition full_spot_state :: ClusterRebalancer where
  "full_spot_state = rebalancer
     [(''aks-spot-2'', mk_node True ''2'' ''8Gi'' 2 8 [resident_pod]),
      (''aks-regular-1'', mk_node False ''8'' ''32Gi'' 0.5 1 [small_pod])]"

definition interruption_state :: ClusterRebalancer where
  "interruption_state = rebalancer
     [(''aks-spot-1'', mk_node True ''4'' ''16Gi'' 3 1 [big_pod]),
      (''aks-spot-2'', mk_node True ''2'' ''8Gi'' 0 0 []),
      (''aks-regular-1'', mk_node False ''8'' ''32Gi'' 0 0 [])]"


text \<open>
  The eligible set as the specification words it, for comparison with
  \<open>eligible_spot_nodes\<close>: the remaining spot nodes with
  \<^verbatim>\<open>current_usage + pod_request <= allocatable\<close> for CPU and for memory, the request
  being the pod's declared cores and GiB, read as the usage bookkeeping reads them.
\<close>

definition spec_eligible :: "pod \<Rightarrow> string list \<Rightarrow> nodes \<Rightarrow> string list" where
  "spec_eligible p remaining ns =
     filter (\<lambda>n. case map_of ns n of
                   None \<Rightarrow> False
                 | Some nd \<Rightarrow>
                     (case (cpu_cores (requests_cpu p), mem_gb (requests_memory p),
                            py_float (allocatable_cpu nd), mem_gb (allocatable_memory nd)) of
                        (Some c, Some m, Some ac, Some am) \<Rightarrow>
                          current_cpu_usage nd + c \<le> ac \<and> current_mem_usage_gb nd + m \<le> am
                      | _ \<Rightarrow> False)) remaining"

section \<open>Where a pod resides\<close>


text \<open>The pods of every node, and the occurrences of one pod on every node, in order.\<close>

definition pods_of :: "nodes \<Rightarrow> (string \<times> pod list) list" where
  "pods_of ns = map (\<lambda>(nm, nd). (nm, pods nd)) ns"



section \<open>The node score as specified\<close>








section \<open>Properties of the scaling decision engine\<close>

lemma should_scale_up_True_time:
  "should_scale_up s now = (True, s') \<Longrightarrow> last_scale_time s' = now \<and> cfg s' = cfg s"
  by (auto simp: should_scale_up_def Let_def split: if_splits)

lemma should_scale_up_cooling:
  "now - last_scale_time s < real_of_int (MIN_CHANGE_PERIOD (cfg s)) \<Longrightarrow>
   should_scale_up s now = (False, s)"
  by (simp add: should_scale_up_def)

lemma update_metrics_keeps:
  "update_metrics s now c m n rt = Inr s1 \<Longrightarrow>
   cfg s1 = cfg s \<and> last_scale_time s1 = last_scale_time s"
  by (auto simp: update_metrics_def Let_def split: sum.splits option.splits)

lemma calls_cooling:
  "list_all (in_cooldown (last_scale_time s) (real_of_int (MIN_CHANGE_PERIOD (cfg s)))) cs \<Longrightarrow>
   list_all (\<lambda>d. \<not> d) (fst (calls s cs)) \<and> last_scale_time (snd (calls s cs)) = last_scale_time s"
proof (induction cs arbitrary: s)
  case Nil
  then show ?case by simp
next
  case (Cons c cs)
  show ?case
  proof (cases c)
    case (Ingest now cu m n rt)
    show ?thesis
    proof (cases "update_metrics s now cu m n rt")
      case (Inl e)
      with Cons Ingest show ?thesis by simp
    next
      case (Inr s1)
      with Cons.prems Ingest Cons.IH[of s1] update_metrics_keeps[OF Inr] show ?thesis by simp
    qed
  next
    case (Decide now)
    with Cons.prems have c: "should_scale_up s now = (False, s)"
      by (simp add: should_scale_up_cooling)
    with Cons.prems Decide Cons.IH[of s] show ?thesis by (auto split: prod.splits)
  qed
qed

text \<open>
  C6.  Once \<^verbatim>\<open>should_scale_up\<close> has answered true at time \<open>t\<close>, every later sequence of
  ingestions and decisions on the object, whatever the metrics ingested, yields only
  negative decisions as long as each decision is requested less than
  \<^verbatim>\<open>MIN_CHANGE_PERIOD\<close> after \<open>t\<close>.
\<close>

theorem cooldown_after_scale_up:
  assumes "should_scale_up s t = (True, s')"
    and "list_all (in_cooldown t (real_of_int (MIN_CHANGE_PERIOD (cfg s)))) cs"
  shows "list_all (\<lambda>d. \<not> d) (fst (calls s' cs))"
  using calls_cooling[of s' cs] should_scale_up_True_time[OF assms(1)] assms(2) by simp

theorem cooldown_after_scale_up_witness:
  "should_scale_up w_metrics 1000 = (True, w_metrics\<lparr> last_scale_time := 1000 \<rparr>) \<and>
   list_all (in_cooldown 1000 (real_of_int (MIN_CHANGE_PERIOD (cfg w_metrics))))
     [Ingest 1010 95 95 3 (Some 3), Decide 1010, Decide 1119] \<and>
   fst (calls (w_metrics\<lparr> last_scale_time := 1000 \<rparr>)
     [Ingest 1010 95 95 3 (Some 3), Decide 1010, Decide 1119]) = [False, False]"
proof -
  have a: "should_scale_up w_metrics 1000 = (True, w_metrics\<lparr> last_scale_time := 1000 \<rparr>)"
    by (simp add: should_scale_up_def w_metrics_def default_config_def avg_def Let_def)
  have b: "list_all (in_cooldown 1000 (real_of_int (MIN_CHANGE_PERIOD (cfg w_metrics))))
     [Ingest 1010 95 95 3 (Some 3), Decide 1010, Decide 1119]"
    by (simp add: w_metrics_def default_config_def)
  have c: "length (fst (calls (w_metrics\<lparr> last_scale_time := 1000 \<rparr>)
     [Ingest 1010 95 95 3 (Some 3), Decide 1010, Decide 1119])) = 2"
    by (simp add: update_metrics_def Let_def split: prod.splits)
  from cooldown_after_scale_up[OF a b] c a b show ?thesis
    by (auto simp: length_Suc_conv numeral_2_eq_2)
qed



text \<open>
  C9.  A call of \<^verbatim>\<open>update_metrics\<close> at time \<open>now\<close> returns (it can only raise when the
  response time is omitted and the pod count is negative), and afterwards the history is
  the old history followed by the new sample, restricted to the samples whose timestamp
  is strictly greater than \<open>now - STABILIZATION_WINDOW\<close>: nothing older is retained and
  nothing else is added.
\<close>

theorem update_metrics_window:
  assumes "0 \<le> n \<or> rt \<noteq> None"
  shows "\<exists>s' r. update_metrics s now c m n rt = Inr s' \<and>
     metric_history s' =
       filter (\<lambda>x. timestamp x > now - real_of_int (STABILIZATION_WINDOW (cfg s)))
         (metric_history s @ [\<lparr> timestamp = now, cpu = c, memory = m, response_time = r \<rparr>]) \<and>
     (\<forall>x \<in> set (metric_history s'). timestamp x > now - real_of_int (STABILIZATION_WINDOW (cfg s))) \<and>
     (\<forall>x \<in> set (metric_history s'). x \<in> set (metric_history s) \<or> timestamp x = now)"
  using assms
  by (cases rt) (auto simp: update_metrics_def calculate_simulated_response_time_def Let_def)

theorem update_metrics_window_witness:
  "metric_history (projr (update_metrics
      (w_metrics\<lparr> metric_history :=
         [\<lparr> timestamp = 930, cpu = 10, memory = 10, response_time = 0.2 \<rparr>,
          \<lparr> timestamp = 990, cpu = 40, memory = 40, response_time = 2.5 \<rparr>] \<rparr>)
      1000 50 50 2 (Some 0.3))) =
   [\<lparr> timestamp = 990, cpu = 40, memory = 40, response_time = 2.5 \<rparr>,
    \<lparr> timestamp = 1000, cpu = 50, memory = 50, response_time = 0.3 \<rparr>]"
  using update_metrics_window[of 2 "Some 0.3" "(w_metrics\<lparr> metric_history :=
         [\<lparr> timestamp = 930, cpu = 10, memory = 10, response_time = 0.2 \<rparr>,
          \<lparr> timestamp = 990, cpu = 40, memory = 40, response_time = 2.5 \<rparr>] \<rparr>)" 1000 50 50]
  by (auto simp: w_metrics_def default_config_def update_metrics_def)




section \<open>Properties of the rebalancer\<close>

lemmas quantity_defs = py_float_def unsigned_float_def digit_of_def cpu_cores_def mem_gb_def
  remove_m_def

text \<open>
  C1.  The code does not keep the invariant.  A batch of one pod requesting 3 cores, with
  the spot node of 2 allocatable cores as the only destination, completes without an
  exception and leaves that node with a committed CPU usage of 3: the placement is not
  rejected, since \<^verbatim>\<open>_execute_migrations\<close> never compares a request with a capacity.
\<close>

theorem execute_migrations_overcommits:
  "execute_migrations small_node_state [big_pod] [(''aks-spot-2'', 11.4)] 7200 =
     (None, rebalancer
        [(''aks-spot-2'', mk_node True ''2'' ''8Gi'' 3 1 [big_pod]),
         (''aks-regular-1'', mk_node False ''8'' ''32Gi'' 0 0 [])]) \<and>
   cpu_cores (requests_cpu big_pod) = Some 3 \<and> py_float ''2'' = Some 2"
  by code_simp

text \<open>
  C2.  The code mutates the state although the only spot node has no spare capacity (its
  usage equals its allocatable CPU and memory, as the metrics taken at the start of the
  cycle show): one cycle moves the pod of the regular node onto it and raises its
  counters to 2.5 cores and 9 GiB.
\<close>

theorem rebalance_moves_onto_full_node:
  "get_node_metrics full_spot_state =
     (Inr [(''aks-spot-2'', metrics_of (mk_node True ''2'' ''8Gi'' 2 8 [resident_pod])),
           (''aks-regular-1'', metrics_of (mk_node False ''8'' ''32Gi'' 0.5 1 [small_pod]))],
      full_spot_state) \<and>
   py_float ''2'' = Some 2 \<and> mem_gb ''8Gi'' = Some 8 \<and>
   simulated_nodes (rebalance_cluster full_spot_state 1000 1001) =
     [(''aks-spot-2'', mk_node True ''2'' ''8Gi'' 2.5 9 [resident_pod, small_pod]),
      (''aks-regular-1'', mk_node False ''8'' ''32Gi'' 0 0 [])]"
  by code_simp

text \<open>
  C3.  For an orphaned pod that declares 3 cores and a remaining spot node of 2 allocatable
  cores, the set the code computes contains the node, while the set of nodes with
  \<^verbatim>\<open>current_usage + pod_request <= allocatable\<close> is empty; whatever the random draw,
  the pod is placed on that node.  The code divides the declared CPU by 1000 even when the
  string has no \<^verbatim>\<open>m\<close> suffix.
\<close>

theorem interruption_places_on_node_without_capacity:
  "eligible_spot_nodes big_pod [''aks-spot-2'']
     (AList.delete ''aks-spot-1'' (simulated_nodes interruption_state)) = Inr [''aks-spot-2''] \<and>
   spec_eligible big_pod [''aks-spot-2'']
     (AList.delete ''aks-spot-1'' (simulated_nodes interruption_state)) = [] \<and>
   simulate_spot_node_interruption interruption_state ''aks-spot-1'' rnd =
     (None, rebalancer
        [(''aks-spot-2'', mk_node True ''2'' ''8Gi'' 3 1 [big_pod]),
         (''aks-regular-1'', mk_node False ''8'' ''32Gi'' 0 0 [])])"
proof -
  have a: "eligible_spot_nodes big_pod [''aks-spot-2'']
     (AList.delete ''aks-spot-1'' (simulated_nodes interruption_state)) = Inr [''aks-spot-2'']"
    by code_simp
  have b: "spec_eligible big_pod [''aks-spot-2'']
     (AList.delete ''aks-spot-1'' (simulated_nodes interruption_state)) = []"
    by code_simp
  have c: "simulate_spot_node_interruption interruption_state ''aks-spot-1'' rnd =
     (None, rebalancer
        [(''aks-spot-2'', mk_node True ''2'' ''8Gi'' 3 1 [big_pod]),
         (''aks-regular-1'', mk_node False ''8'' ''32Gi'' 0 0 [])])"
    by (simp add: simulate_spot_node_interruption_def interruption_state_def rebalancer_def
        mk_node_def big_pod_def AList.delete_eq interruption_request_def has_capacity_def
        place_pod_def update_simulated_node_usage_def quantity_defs Let_def)
  from a b c show ?thesis by simp
qed

section \<open>Properties of the eviction helper of \<^verbatim>\<open>utils.py\<close>\<close>

text \<open>
  C10.  For every pod name, namespace and retry count, whatever the environment and the
  API would answer, \<^verbatim>\<open>safe_evict_pod\<close> of \<^verbatim>\<open>utils.py\<close> raises \<^verbatim>\<open>AttributeError\<close>
  on reading \<^verbatim>\<open>Config().TEST_MODE\<close>, before any call to the API: it returns no value.
\<close>

theorem utils_safe_evict_pod_raises:
  "utils_safe_evict_pod values api pod_name ns max_retries = (Inl AttributeError, [])"
  by (simp add: utils_safe_evict_pod_def Config_getattr_def Config_attributes_def)

section \<open>Destination scoring\<close>




section \<open>Critical pods\<close>




lemma keys_pods_of: "map fst (pods_of ns) = map fst ns"
  by (induction ns) (auto simp: pods_of_def)






















end
